theory Spec2Isabelle
  imports Complex_Main "HOL-Library.Sublist"
begin

section \<open>Data model\<close>

text \<open>
  The component \<open>HomeClient\<close> receives the roster as the property \<open>initialArtists\<close> and keeps
  eight pieces of local state. A JavaScript string is a \<open>string\<close>, \<open>===\<close> on strings is
  equality, and the only falsy string is the empty one.
\<close>

subsection \<open>Numbers\<close>

text \<open>
  A JavaScript \<open>number\<close> is a finite value, one of the two infinities, or \<open>NaN\<close>. The
  component compares numbers with \<open><=\<close>, combines them with \<open>Math.max\<close> and \<open>Math.min\<close> and
  tests them with \<open>Number.isFinite\<close>; none of these rounds, so a finite value is modelled by
  the real number it denotes. The two zeros are one value: they compare equal and pass the
  same tests.
\<close>

datatype number = NaN | NegInf | Fin real | PosInf

text \<open>\<open>x <= y\<close>: false as soon as one side is \<open>NaN\<close>.\<close>

fun lessEq :: "number \<Rightarrow> number \<Rightarrow> bool" where
  "lessEq NaN y = False"
| "lessEq x NaN = False"
| "lessEq NegInf y = True"
| "lessEq x PosInf = True"
| "lessEq (Fin x) (Fin y) = (x \<le> y)"
| "lessEq PosInf y = False"
| "lessEq x NegInf = False"

text \<open>\<open>Math.max\<close> and \<open>Math.min\<close> of two arguments: \<open>NaN\<close> as soon as one of them is.\<close>

definition Math_max :: "number \<Rightarrow> number \<Rightarrow> number" where
  "Math_max x y = (if x = NaN \<or> y = NaN then NaN else if lessEq x y then y else x)"

definition Math_min :: "number \<Rightarrow> number \<Rightarrow> number" where
  "Math_min x y = (if x = NaN \<or> y = NaN then NaN else if lessEq x y then x else y)"

fun isFinite :: "number \<Rightarrow> bool" where
  "isFinite (Fin x) = True"
| "isFinite NaN = False"
| "isFinite NegInf = False"
| "isFinite PosInf = False"

subsection \<open>Records\<close>

record showcase =
  venue :: string
  city :: string
  date :: string

text \<open>
  Modelled from the spec: the type \<open>Artist\<close> is imported from \<open>@/data/artists\<close>, which is not
  among the sources. The fields are those of the data model (identifier, name, genre tags,
  location, numeric rate, numeric rating, description, cover image reference, availability
  slot labels, showcases), under the names the component reads them by.
\<close>

record artist =
  id_artist :: string
  name :: string
  genres :: "string list"
  location :: string
  rate :: number
  rating :: number
  description :: string
  coverImage :: string
  availability :: "string list"
  showcases :: "showcase list"

record bookingFormState =
  plannerName :: string
  plannerEmail :: string
  eventDetails :: string

text \<open>The keys of \<open>BookingFormState\<close>, the first argument of \<open>handleFormChange\<close>.\<close>

datatype field = PlannerName | PlannerEmail | EventDetails

record state =
  genreFilter :: string
  locationFilter :: string
  budget :: number
  eventType :: string
  selectedArtistId :: string
  selectedAvailability :: string
  formState :: bookingFormState
  successMessage :: "string option"

definition eventTypes :: "string list" where
  "eventTypes =
     [''Corporate Gala'', ''Private Celebration'', ''Wedding'', ''Brand Activation'',
      ''Festival Stage'', ''Hospitality Lounge'']"

section \<open>Initial state\<close>

text \<open>
  \<open>initialArtists.reduce(f, initialArtists[0]?.rate ?? 0)\<close>: a left fold over the whole
  roster that starts from the first artist's rate, or from 0 when there is no first artist.
\<close>

definition firstRate :: "artist list \<Rightarrow> number" where
  "firstRate initialArtists = (case initialArtists of [] \<Rightarrow> Fin 0 | a # _ \<Rightarrow> rate a)"

definition maxRate :: "artist list \<Rightarrow> number" where
  "maxRate initialArtists =
     foldl (\<lambda>currentMax a. Math_max currentMax (rate a)) (firstRate initialArtists)
       initialArtists"

definition minRate :: "artist list \<Rightarrow> number" where
  "minRate initialArtists =
     foldl (\<lambda>currentMin a. Math_min currentMin (rate a)) (firstRate initialArtists)
       initialArtists"

definition resolvedMinRate :: "artist list \<Rightarrow> number" where
  "resolvedMinRate initialArtists =
     (if isFinite (minRate initialArtists) then minRate initialArtists else Fin 0)"

definition resolvedMaxRate :: "artist list \<Rightarrow> number" where
  "resolvedMaxRate initialArtists =
     Math_max (resolvedMinRate initialArtists) (maxRate initialArtists)"

definition initialState :: "artist list \<Rightarrow> state" where
  "initialState initialArtists =
     \<lparr> genreFilter = ''All'',
       locationFilter = ''All'',
       budget = resolvedMaxRate initialArtists,
       eventType = (case eventTypes of [] \<Rightarrow> [] | t # _ \<Rightarrow> t),
       selectedArtistId = (case initialArtists of [] \<Rightarrow> [] | a # _ \<Rightarrow> id_artist a),
       selectedAvailability = [],
       formState = \<lparr> plannerName = [], plannerEmail = [], eventDetails = [] \<rparr>,
       successMessage = None \<rparr>"

section \<open>Derived values\<close>

text \<open>
  The three tests of the filter callback, under the names of its local constants.
  \<open>Array.prototype.some\<close> is \<open>list_ex\<close>, \<open>Array.prototype.filter\<close> is \<open>filter\<close> and
  \<open>Array.prototype.find\<close> is \<open>find\<close>.
\<close>

definition matchesGenre :: "string \<Rightarrow> artist \<Rightarrow> bool" where
  "matchesGenre genreFilter' a =
     (genreFilter' = ''All'' \<or> list_ex (\<lambda>genre. genre = genreFilter') (genres a))"

definition matchesLocation :: "string \<Rightarrow> artist \<Rightarrow> bool" where
  "matchesLocation locationFilter' a =
     (locationFilter' = ''All'' \<or> location a = locationFilter')"

definition matchesBudget :: "number \<Rightarrow> artist \<Rightarrow> bool" where
  "matchesBudget budget' a = lessEq (rate a) budget'"

definition filterArtists ::
  "artist list \<Rightarrow> string \<Rightarrow> string \<Rightarrow> number \<Rightarrow> artist list" where
  "filterArtists initialArtists genreFilter' locationFilter' budget' =
     filter (\<lambda>a. matchesGenre genreFilter' a \<and> matchesLocation locationFilter' a
                  \<and> matchesBudget budget' a) initialArtists"

definition filteredArtists :: "artist list \<Rightarrow> state \<Rightarrow> artist list" where
  "filteredArtists initialArtists s =
     filterArtists initialArtists (genreFilter s) (locationFilter s) (budget s)"

definition selectedArtist :: "artist list \<Rightarrow> state \<Rightarrow> artist option" where
  "selectedArtist initialArtists s =
     find (\<lambda>a. id_artist a = selectedArtistId s) (filteredArtists initialArtists s)"

section \<open>Selection reconciliation\<close>

text \<open>
  The body of the effect, run on the filtered list of the render it follows. With an empty
  list it clears the selection and returns; otherwise it moves a selection that is no longer
  visible to \<open>filteredArtists[0]\<close>.
\<close>

definition reconcile :: "artist list \<Rightarrow> state \<Rightarrow> state" where
  "reconcile filtered s =
     (case filtered of
        [] \<Rightarrow> s\<lparr> selectedArtistId := [], selectedAvailability := [] \<rparr>
      | first # _ \<Rightarrow>
          (let stillVisible = list_ex (\<lambda>a. id_artist a = selectedArtistId s) filtered
           in if \<not> stillVisible
              then s\<lparr> selectedArtistId := id_artist first, selectedAvailability := [] \<rparr>
              else s))"

section \<open>Event handlers\<close>

text \<open>
  \<open>handleBookClick\<close> also scrolls the booking panel into view, which changes no state.
\<close>

definition handleBookClick :: "string \<Rightarrow> state \<Rightarrow> state" where
  "handleBookClick artistId s =
     s\<lparr> selectedArtistId := artistId, selectedAvailability := [], successMessage := None \<rparr>"

definition handleAvailabilityClick :: "string \<Rightarrow> state \<Rightarrow> state" where
  "handleAvailabilityClick slot s =
     s\<lparr> selectedAvailability := (if selectedAvailability s = slot then [] else slot) \<rparr>"

definition handleFormChange :: "field \<Rightarrow> string \<Rightarrow> state \<Rightarrow> state" where
  "handleFormChange fld v s =
     s\<lparr> formState :=
          (case fld of
             PlannerName \<Rightarrow> (formState s)\<lparr> plannerName := v \<rparr>
           | PlannerEmail \<Rightarrow> (formState s)\<lparr> plannerEmail := v \<rparr>
           | EventDetails \<Rightarrow> (formState s)\<lparr> eventDetails := v \<rparr>) \<rparr>"

definition selectMessage :: string where
  "selectMessage = ''Select an artist and availability to confirm a request.''"

definition contactMessage :: string where
  "contactMessage = ''Please include your name and email so we can follow up.''"

definition confirmation :: "string \<Rightarrow> string \<Rightarrow> string" where
  "confirmation artistName slot =
     ''Booking inquiry sent for '' @ artistName @ '' on '' @ slot
       @ ''. Expect a response within 24 hours.''"

definition handleSubmit :: "artist list \<Rightarrow> state \<Rightarrow> state" where
  "handleSubmit initialArtists s =
     (case selectedArtist initialArtists s of
        None \<Rightarrow> s\<lparr> successMessage := Some selectMessage \<rparr>
      | Some a \<Rightarrow>
          if selectedAvailability s = [] then s\<lparr> successMessage := Some selectMessage \<rparr>
          else if plannerName (formState s) = [] \<or> plannerEmail (formState s) = []
          then s\<lparr> successMessage := Some contactMessage \<rparr>
          else s\<lparr> successMessage := Some (confirmation (name a) (selectedAvailability s)),
                  formState := \<lparr> plannerName = [], plannerEmail = [], eventDetails = [] \<rparr>,
                  selectedAvailability := [] \<rparr>)"

section \<open>The component as a transition system\<close>

text \<open>
  One constructor for each interactive element of the page: the genre and location pills,
  the budget slider, the event format inputs, the Request button of a card, an availability
  pill of a card (which calls \<open>handleBookClick\<close> and then \<open>handleAvailabilityClick\<close>), an
  availability pill of the booking panel, the three form inputs, and the submit button.
\<close>

datatype event =
    GenreClick string
  | LocationClick string
  | BudgetChange number
  | EventTypeChange string
  | BookClick string
  | CardSlotClick string string
  | PanelSlotClick string
  | FormChange field string
  | Submit

fun handle :: "artist list \<Rightarrow> event \<Rightarrow> state \<Rightarrow> state" where
  "handle ia (GenreClick g) s = s\<lparr> genreFilter := g \<rparr>"
| "handle ia (LocationClick l) s = s\<lparr> locationFilter := l \<rparr>"
| "handle ia (BudgetChange b) s = s\<lparr> budget := b \<rparr>"
| "handle ia (EventTypeChange t) s = s\<lparr> eventType := t \<rparr>"
| "handle ia (BookClick artistId) s = handleBookClick artistId s"
| "handle ia (CardSlotClick artistId slot) s =
     handleAvailabilityClick slot (handleBookClick artistId s)"
| "handle ia (PanelSlotClick slot) s = handleAvailabilityClick slot s"
| "handle ia (FormChange fld v) s = handleFormChange fld v s"
| "handle ia Submit s = handleSubmit ia s"

text \<open>
  The effect has the dependencies \<open>[filteredArtists, selectedArtistId]\<close>. The memoised list
  is recomputed exactly when one of the three criteria changes (the roster is fixed), so
  after an event the effect runs when a criterion or the selected id differs from the
  previous render, and is skipped otherwise. At mount it always runs. React compares
  dependencies with \<open>Object.is\<close>, for which \<open>NaN\<close> is the same value as \<open>NaN\<close>, as it is here.
\<close>

definition effectDeps :: "state \<Rightarrow> string \<times> string \<times> number \<times> string" where
  "effectDeps s = (genreFilter s, locationFilter s, budget s, selectedArtistId s)"

definition useEffect :: "artist list \<Rightarrow> state \<Rightarrow> state \<Rightarrow> state" where
  "useEffect ia prev s =
     (if effectDeps s = effectDeps prev then s else reconcile (filteredArtists ia s) s)"

definition mount :: "artist list \<Rightarrow> state" where
  "mount ia = reconcile (filteredArtists ia (initialState ia)) (initialState ia)"

definition step :: "artist list \<Rightarrow> event \<Rightarrow> state \<Rightarrow> state" where
  "step ia e s = useEffect ia s (handle ia e s)"

inductive reachable :: "artist list \<Rightarrow> state \<Rightarrow> bool" for ia :: "artist list" where
  reachable_mount: "reachable ia (mount ia)"
| reachable_step: "reachable ia s \<Longrightarrow> reachable ia (step ia e s)"

text \<open>The predicate of the filter contract, in the words of the contract.\<close>

definition satisfies :: "string \<Rightarrow> string \<Rightarrow> number \<Rightarrow> artist \<Rightarrow> bool" where
  "satisfies g l b a =
     ((g = ''All'' \<or> g \<in> set (genres a)) \<and> (l = ''All'' \<or> location a = l)
      \<and> lessEq (rate a) b)"

text \<open>
  What the effect establishes: with an empty filtered list nothing is selected, and
  otherwise the selected id is that of an artist of the filtered list.
\<close>

definition selection_ok :: "artist list \<Rightarrow> state \<Rightarrow> bool" where
  "selection_ok ia s =
     (if filteredArtists ia s = [] then selectedArtistId s = []
      else selectedArtistId s \<in> id_artist ` set (filteredArtists ia s))"

section \<open>A sample roster\<close>

text \<open>
  Two artists and two states of the component over them, for the concrete instances below:
  \<open>picked\<close> is the page after mounting and choosing the first slot of the selected artist in
  the booking panel, \<open>filled\<close> is \<open>picked\<close> after typing a name and an email address.
\<close>

definition nova :: artist where
  "nova = \<lparr> id_artist = ''nova'', name = ''Nova Quartet'', genres = [''Jazz'', ''Soul''],
            location = ''Austin'', rate = Fin 2500, rating = Fin 4, description = [],
            coverImage = [], availability = [''Mar 3'', ''Apr 9''], showcases = [] \<rparr>"

definition echo :: artist where
  "echo = \<lparr> id_artist = ''echo'', name = ''Echo Lane'', genres = [''Pop''],
            location = ''Denver'', rate = Fin 4000, rating = Fin 5, description = [],
            coverImage = [], availability = [''May 1''], showcases = [] \<rparr>"

definition roster :: "artist list" where
  "roster = [nova, echo]"



definition picked :: state where
  "picked = step roster (PanelSlotClick ''Mar 3'') (mount roster)"

definition filled :: state where
  "filled = step roster (FormChange PlannerEmail ''jo@x.io'')
              (step roster (FormChange PlannerName ''Jo'') picked)"

section \<open>Filter engine\<close>

lemmas sample_defs = roster_def nova_def echo_def

lemmas filter_defs = filterArtists_def matchesGenre_def matchesLocation_def matchesBudget_def

lemma filterArtists_eq: "filterArtists ia g l b = filter (satisfies g l b) ia"
  unfolding filterArtists_def satisfies_def matchesGenre_def matchesLocation_def
    matchesBudget_def list_ex_iff
  by (rule filter_cong) auto

lemma subseq_all_filter:
  assumes "subseq ys xs" and "\<forall>y\<in>set ys. P y"
  shows "subseq ys (filter P xs)"
proof -
  have "subseq (filter P ys) (filter P xs)"
    using assms(1) by (rule subseq_filter)
  moreover have "filter P ys = ys"
    using assms(2) by simp
  ultimately show ?thesis by simp
qed

lemma set_filterArtists_subset: "set (filterArtists ia g l b) \<subseteq> set ia"
  by (simp add: filterArtists_def)

text \<open>
  C1. For every roster and every genre, location and budget criterion, the filtered list is
  a subsequence of the roster (a subset, in the original order); each of its elements is an
  artist of the roster that satisfies the three predicates (the genre criterion is "All" or
  one of the artist's genres, the location criterion is "All" or the artist's location, the
  rate is at most the budget, inclusive); every artist of the roster that satisfies them is
  in it; and it is the largest such subsequence, so nothing that qualifies is dropped or
  reordered. The list the component renders is this one, at the criteria of its state.
\<close>

theorem filter_engine_contract:
  "subseq (filterArtists ia g l b) ia
   \<and> (\<forall>a\<in>set (filterArtists ia g l b). a \<in> set ia \<and> satisfies g l b a)
   \<and> (\<forall>a\<in>set ia. satisfies g l b a \<longrightarrow> a \<in> set (filterArtists ia g l b))
   \<and> (\<forall>ys. subseq ys ia \<and> (\<forall>a\<in>set ys. satisfies g l b a)
          \<longrightarrow> subseq ys (filterArtists ia g l b))
   \<and> filteredArtists ia s = filterArtists ia (genreFilter s) (locationFilter s) (budget s)"
  by (simp add: filterArtists_eq subseq_all_filter filteredArtists_def)

theorem filter_engine_contract_witness:
  "filterArtists roster ''Jazz'' ''All'' (Fin 3000) = [nova]
   \<and> subseq [nova] roster \<and> nova \<in> set roster \<and> satisfies ''Jazz'' ''All'' (Fin 3000) nova
   \<and> subseq [nova] (filterArtists roster ''Jazz'' ''All'' (Fin 3000))"
proof -
  have f: "filterArtists roster ''Jazz'' ''All'' (Fin 3000) = [nova]"
    by (simp add: filter_defs sample_defs)
  have sub: "subseq [nova] roster"
    by (simp add: roster_def)
  have sat: "\<forall>a\<in>set [nova]. satisfies ''Jazz'' ''All'' (Fin 3000) a"
    by (simp add: satisfies_def nova_def)
  from filter_engine_contract [of roster "''Jazz''" "''All''" "Fin 3000"] f sub sat
  show ?thesis
    by (simp add: roster_def)
qed

section \<open>Mounting\<close>





lemma lessEq_antisym: "lessEq x y \<Longrightarrow> lessEq y x \<Longrightarrow> x = y"
  by (cases x; cases y; simp)


















lemmas init_defs = initialState_def resolvedMaxRate_def resolvedMinRate_def
  maxRate_def minRate_def firstRate_def eventTypes_def Math_max_def Math_min_def




section \<open>The sample states\<close>

lemmas run_defs = step_def useEffect_def effectDeps_def filteredArtists_def filter_defs
  reconcile_def handleBookClick_def handleAvailabilityClick_def handleFormChange_def
  handleSubmit_def selectedArtist_def

lemma mount_roster:
  "mount roster =
     \<lparr> genreFilter = ''All'', locationFilter = ''All'', budget = Fin 4000,
       eventType = ''Corporate Gala'', selectedArtistId = ''nova'', selectedAvailability = [],
       formState = \<lparr> plannerName = [], plannerEmail = [], eventDetails = [] \<rparr>,
       successMessage = None \<rparr>"
  by (simp add: mount_def init_defs run_defs sample_defs)

lemma picked_eq:
  "picked =
     \<lparr> genreFilter = ''All'', locationFilter = ''All'', budget = Fin 4000,
       eventType = ''Corporate Gala'', selectedArtistId = ''nova'',
       selectedAvailability = ''Mar 3'',
       formState = \<lparr> plannerName = [], plannerEmail = [], eventDetails = [] \<rparr>,
       successMessage = None \<rparr>"
  by (simp add: picked_def mount_roster run_defs)

lemma filled_eq:
  "filled =
     \<lparr> genreFilter = ''All'', locationFilter = ''All'', budget = Fin 4000,
       eventType = ''Corporate Gala'', selectedArtistId = ''nova'',
       selectedAvailability = ''Mar 3'',
       formState = \<lparr> plannerName = ''Jo'', plannerEmail = ''jo@x.io'', eventDetails = [] \<rparr>,
       successMessage = None \<rparr>"
  by (simp add: filled_def picked_eq run_defs)

lemma selectedArtist_picked: "selectedArtist roster picked = Some nova"
  by (simp add: picked_eq selectedArtist_def filteredArtists_def filter_defs sample_defs)

lemma selectedArtist_filled: "selectedArtist roster filled = Some nova"
  by (simp add: filled_eq selectedArtist_def filteredArtists_def filter_defs sample_defs)

section \<open>Selection reconciliation\<close>

lemma stillVisible_iff:
  "list_ex (\<lambda>a. id_artist a = x) xs \<longleftrightarrow> x \<in> id_artist ` set xs"
  by (auto simp: list_ex_iff)

lemma reconcile_visible:
  "selectedArtistId s \<in> id_artist ` set filtered \<Longrightarrow> reconcile filtered s = s"
  by (cases filtered) (auto simp: reconcile_def stillVisible_iff Let_def)

text \<open>
  The effect sets the selected id, which is one of its own dependencies, so React runs it
  once more after it has changed the selection. The second run finds the state settled.
\<close>

lemma reconcile_idem: "reconcile filtered (reconcile filtered s) = reconcile filtered s"
  by (cases filtered) (auto simp: reconcile_def stillVisible_iff Let_def)

lemma reconcile_criteria:
  "genreFilter (reconcile filtered s) = genreFilter s"
  "locationFilter (reconcile filtered s) = locationFilter s"
  "budget (reconcile filtered s) = budget s"
  by (cases filtered; simp add: reconcile_def Let_def)+

lemma filteredArtists_reconcile:
  "filteredArtists ia (reconcile filtered s) = filteredArtists ia s"
  by (simp add: filteredArtists_def reconcile_criteria)

text \<open>
  C2. The reconciliation step, on a filtered list and a state: with an empty list the
  selected id and the chosen slot both become empty; with a non-empty list that holds no
  artist of the selected id, the selected id becomes the id of the first element and the
  slot becomes empty; otherwise the state is left as it is. Nothing else of the state
  changes in any case, and the step is what follows an event whenever a criterion or the
  selected id has changed.
\<close>

theorem reconcile_cases:
  "(filtered = [] \<longrightarrow>
      reconcile filtered s = s\<lparr> selectedArtistId := [], selectedAvailability := [] \<rparr>)
   \<and> (filtered \<noteq> [] \<and> selectedArtistId s \<notin> id_artist ` set filtered \<longrightarrow>
        reconcile filtered s
          = s\<lparr> selectedArtistId := id_artist (hd filtered), selectedAvailability := [] \<rparr>)
   \<and> (filtered \<noteq> [] \<and> selectedArtistId s \<in> id_artist ` set filtered \<longrightarrow>
        reconcile filtered s = s)
   \<and> (effectDeps (handle ia e s) \<noteq> effectDeps s \<longrightarrow>
        step ia e s = reconcile (filteredArtists ia (handle ia e s)) (handle ia e s))"
proof -
  have "effectDeps (handle ia e s) \<noteq> effectDeps s \<longrightarrow>
        step ia e s = reconcile (filteredArtists ia (handle ia e s)) (handle ia e s)"
    by (simp add: step_def useEffect_def)
  moreover have "filtered = [] \<longrightarrow>
      reconcile filtered s = s\<lparr> selectedArtistId := [], selectedAvailability := [] \<rparr>"
    by (simp add: reconcile_def)
  moreover have "filtered \<noteq> [] \<and> selectedArtistId s \<notin> id_artist ` set filtered \<longrightarrow>
        reconcile filtered s
          = s\<lparr> selectedArtistId := id_artist (hd filtered), selectedAvailability := [] \<rparr>"
    by (cases filtered) (simp_all add: reconcile_def stillVisible_iff Let_def)
  moreover have "filtered \<noteq> [] \<and> selectedArtistId s \<in> id_artist ` set filtered \<longrightarrow>
        reconcile filtered s = s"
    by (simp add: reconcile_visible)
  ultimately show ?thesis by blast
qed

theorem reconcile_cases_witness:
  "reconcile [] picked = picked\<lparr> selectedArtistId := [], selectedAvailability := [] \<rparr>
   \<and> [echo] \<noteq> [] \<and> selectedArtistId picked \<notin> id_artist ` set [echo]
   \<and> reconcile [echo] picked
        = picked\<lparr> selectedArtistId := id_artist echo, selectedAvailability := [] \<rparr>
   \<and> roster \<noteq> [] \<and> selectedArtistId picked \<in> id_artist ` set roster
   \<and> reconcile roster picked = picked
   \<and> effectDeps (handle roster (GenreClick ''Pop'') picked) \<noteq> effectDeps picked
   \<and> step roster (GenreClick ''Pop'') picked
        = reconcile (filteredArtists roster (handle roster (GenreClick ''Pop'') picked))
            (handle roster (GenreClick ''Pop'') picked)"
proof -
  have a: "[echo] \<noteq> [] \<and> selectedArtistId picked \<notin> id_artist ` set [echo]"
    by (simp add: picked_eq echo_def)
  have b: "roster \<noteq> [] \<and> selectedArtistId picked \<in> id_artist ` set roster"
    by (simp add: picked_eq sample_defs)
  have c: "effectDeps (handle roster (GenreClick ''Pop'') picked) \<noteq> effectDeps picked"
    by (simp add: picked_eq effectDeps_def)
  from a b c reconcile_cases [where filtered = "[]" and s = picked]
    reconcile_cases [where filtered = "[echo]" and s = picked]
    reconcile_cases [where filtered = roster and s = picked and ia = roster
      and e = "GenreClick ''Pop''"]
  show ?thesis by simp
qed

section \<open>The selection invariant\<close>

lemma selection_ok_reconcile: "selection_ok ia (reconcile (filteredArtists ia s) s)"
  unfolding selection_ok_def filteredArtists_reconcile
  by (cases "filteredArtists ia s") (auto simp: reconcile_def stillVisible_iff Let_def)

lemma selection_ok_deps:
  "effectDeps s' = effectDeps s \<Longrightarrow> selection_ok ia s \<Longrightarrow> selection_ok ia s'"
proof -
  assume d: "effectDeps s' = effectDeps s" and ok: "selection_ok ia s"
  from d have "filteredArtists ia s' = filteredArtists ia s"
    and "selectedArtistId s' = selectedArtistId s"
    by (simp_all add: effectDeps_def filteredArtists_def)
  with ok show ?thesis
    by (simp add: selection_ok_def)
qed

lemma reachable_selection_ok: "reachable ia s \<Longrightarrow> selection_ok ia s"
proof (induction rule: reachable.induct)
  case reachable_mount
  show ?case unfolding mount_def by (rule selection_ok_reconcile)
next
  case (reachable_step s e)
  show ?case
  proof (cases "effectDeps (handle ia e s) = effectDeps s")
    case True
    then show ?thesis
      using reachable_step.IH by (simp add: step_def useEffect_def selection_ok_deps)
  next
    case False
    then show ?thesis
      by (simp add: step_def useEffect_def selection_ok_reconcile)
  qed
qed

text \<open>
  C3. In every state reached from the mounted component by events, each followed by the
  effect, a non-empty selected id is the id of an artist of the current filtered list, and
  the filtered list holds artists of the roster only.
\<close>

theorem selection_invariant:
  assumes "reachable ia s"
  shows "(selectedArtistId s \<noteq> [] \<longrightarrow>
            (\<exists>a\<in>set (filteredArtists ia s). id_artist a = selectedArtistId s))
         \<and> set (filteredArtists ia s) \<subseteq> set ia"
proof -
  have "selection_ok ia s"
    using assms by (rule reachable_selection_ok)
  then have "selectedArtistId s \<noteq> [] \<longrightarrow>
               (\<exists>a\<in>set (filteredArtists ia s). id_artist a = selectedArtistId s)"
    by (auto simp: selection_ok_def split: if_splits)
  moreover have "set (filteredArtists ia s) \<subseteq> set ia"
    unfolding filteredArtists_def by (rule set_filterArtists_subset)
  ultimately show ?thesis by simp
qed

theorem selection_invariant_witness:
  "reachable roster (step roster (GenreClick ''Pop'') (mount roster))
   \<and> selectedArtistId (step roster (GenreClick ''Pop'') (mount roster)) = ''echo''
   \<and> (\<exists>a\<in>set (filteredArtists roster (step roster (GenreClick ''Pop'') (mount roster))).
         id_artist a = ''echo'')
   \<and> set (filteredArtists roster (step roster (GenreClick ''Pop'') (mount roster))) \<subseteq> set roster"
proof -
  have r: "reachable roster (step roster (GenreClick ''Pop'') (mount roster))"
    by (rule reachable_step [OF reachable_mount])
  have v: "selectedArtistId (step roster (GenreClick ''Pop'') (mount roster)) = ''echo''"
    unfolding mount_roster by (simp add: run_defs sample_defs)
  from selection_invariant [OF r] r v show ?thesis by simp
qed

section \<open>Inquiry composer\<close>

text \<open>Submitting changes none of the effect's dependencies, so the effect is skipped.\<close>

lemma step_Submit: "step ia Submit s = handleSubmit ia s"
  by (simp add: step_def useEffect_def effectDeps_def handleSubmit_def
      split: option.splits)

lemma selectedArtist_SomeD:
  "selectedArtist ia s = Some a \<Longrightarrow>
     a \<in> set (filteredArtists ia s) \<and> id_artist a = selectedArtistId s"
  by (auto simp: selectedArtist_def find_Some_iff)

lemma confirmation_contains:
  "sublist artistName (confirmation artistName slot)"
  "sublist slot (confirmation artistName slot)"
proof -
  show "sublist artistName (confirmation artistName slot)"
    unfolding confirmation_def by (rule sublist_appendI)
  have "confirmation artistName slot
          = (''Booking inquiry sent for '' @ artistName @ '' on'' @ '' '') @ slot
              @ ''. Expect a response within 24 hours.''"
    by (simp add: confirmation_def)
  then show "sublist slot (confirmation artistName slot)"
    using sublist_appendI by metis
qed

lemma selectMessage_neq: "selectMessage \<noteq> confirmation n sl"
  by (simp add: selectMessage_def confirmation_def)

lemma contactMessage_neq: "contactMessage \<noteq> confirmation n sl"
  by (simp add: contactMessage_def confirmation_def)

lemma selectedArtist_form:
  "selectedArtist ia (s\<lparr> formState := f \<rparr>) = selectedArtist ia s"
  by (simp add: selectedArtist_def filteredArtists_def)

text \<open>
  C4. Submitting while an artist is selected, a slot is chosen and the planner's name and
  email are both non-empty sets the status message to the confirmation, which contains the
  name of the selected artist and the chosen slot; it resets the name, the email and the
  event details to the empty string, clears the chosen slot and leaves the selected id
  as it is.
\<close>

theorem submit_success:
  assumes "selectedArtist ia s = Some a"
    and "selectedAvailability s \<noteq> []"
    and "plannerName (formState s) \<noteq> []"
    and "plannerEmail (formState s) \<noteq> []"
  shows "successMessage (step ia Submit s)
           = Some (''Booking inquiry sent for '' @ name a @ '' on '' @ selectedAvailability s
                     @ ''. Expect a response within 24 hours.'')
         \<and> (\<exists>m. successMessage (step ia Submit s) = Some m
                \<and> sublist (name a) m \<and> sublist (selectedAvailability s) m)
         \<and> a \<in> set (filteredArtists ia s) \<and> id_artist a = selectedArtistId s
         \<and> formState (step ia Submit s)
             = \<lparr> plannerName = [], plannerEmail = [], eventDetails = [] \<rparr>
         \<and> selectedAvailability (step ia Submit s) = []
         \<and> selectedArtistId (step ia Submit s) = selectedArtistId s"
proof -
  have s: "step ia Submit s =
      s\<lparr> successMessage := Some (confirmation (name a) (selectedAvailability s)),
         formState := \<lparr> plannerName = [], plannerEmail = [], eventDetails = [] \<rparr>,
         selectedAvailability := [] \<rparr>"
    using assms by (simp add: step_Submit handleSubmit_def)
  have m: "successMessage (step ia Submit s)
             = Some (confirmation (name a) (selectedAvailability s))"
    by (simp add: s)
  from m have m': "successMessage (step ia Submit s)
           = Some (''Booking inquiry sent for '' @ name a @ '' on '' @ selectedAvailability s
                     @ ''. Expect a response within 24 hours.'')"
    by (simp only: confirmation_def)
  from m have c: "\<exists>m. successMessage (step ia Submit s) = Some m
                \<and> sublist (name a) m \<and> sublist (selectedAvailability s) m"
    by (simp add: confirmation_contains)
  have r: "formState (step ia Submit s)
             = \<lparr> plannerName = [], plannerEmail = [], eventDetails = [] \<rparr>"
    "selectedAvailability (step ia Submit s) = []"
    "selectedArtistId (step ia Submit s) = selectedArtistId s"
    by (simp_all add: s)
  from m' c r selectedArtist_SomeD [OF assms(1)] show ?thesis
    by blast
qed

theorem submit_success_witness:
  "selectedArtist roster filled = Some nova
   \<and> selectedAvailability filled = ''Mar 3''
   \<and> plannerName (formState filled) = ''Jo'' \<and> plannerEmail (formState filled) = ''jo@x.io''
   \<and> successMessage (step roster Submit filled)
       = Some ''Booking inquiry sent for Nova Quartet on Mar 3. Expect a response within 24 hours.''
   \<and> formState (step roster Submit filled)
       = \<lparr> plannerName = [], plannerEmail = [], eventDetails = [] \<rparr>
   \<and> selectedAvailability (step roster Submit filled) = []
   \<and> selectedArtistId (step roster Submit filled) = ''nova''"
proof -
  have h: "selectedAvailability filled \<noteq> []" "plannerName (formState filled) \<noteq> []"
    "plannerEmail (formState filled) \<noteq> []"
    by (simp_all add: filled_eq)
  have v: "selectedAvailability filled = ''Mar 3''" "plannerName (formState filled) = ''Jo''"
    "plannerEmail (formState filled) = ''jo@x.io''" "selectedArtistId filled = ''nova''"
    "name nova = ''Nova Quartet''"
    by (simp_all add: filled_eq nova_def)
  from submit_success [OF selectedArtist_filled h] v selectedArtist_filled
  show ?thesis by simp
qed

text \<open>
  C5. Submitting when no artist is selected or no slot is chosen only sets the status
  message that asks to select an artist and availability: the three form fields, the
  selected id and the chosen slot are unchanged, as is the rest of the state.
\<close>

theorem submit_without_selection:
  assumes "selectedArtist ia s = None \<or> selectedAvailability s = []"
  shows "step ia Submit s
           = s\<lparr> successMessage :=
                  Some ''Select an artist and availability to confirm a request.'' \<rparr>
         \<and> formState (step ia Submit s) = formState s
         \<and> selectedArtistId (step ia Submit s) = selectedArtistId s
         \<and> selectedAvailability (step ia Submit s) = selectedAvailability s"
proof -
  have "step ia Submit s = s\<lparr> successMessage := Some selectMessage \<rparr>"
    using assms by (auto simp: step_Submit handleSubmit_def split: option.splits)
  then show ?thesis
    by (simp add: selectMessage_def)
qed

theorem submit_without_selection_witness:
  "selectedAvailability (mount roster) = []
   \<and> successMessage (step roster Submit (mount roster))
       = Some ''Select an artist and availability to confirm a request.''
   \<and> formState (step roster Submit (mount roster)) = formState (mount roster)
   \<and> selectedArtistId (step roster Submit (mount roster)) = ''nova''
   \<and> selectedAvailability (step roster Submit (mount roster)) = []"
proof -
  have h: "selectedAvailability (mount roster) = []" "selectedArtistId (mount roster) = ''nova''"
    by (simp_all add: mount_roster)
  from h(1) have "selectedArtist roster (mount roster) = None
      \<or> selectedAvailability (mount roster) = []" ..
  from submit_without_selection [OF this] h show ?thesis by simp
qed

text \<open>
  C6. Submitting with an artist and a slot selected but an empty name or an empty email
  only sets the status message that asks for name and email. That message is no
  confirmation, and the form fields, the chosen slot and the selected id are unchanged.
\<close>

theorem submit_without_contact:
  assumes "selectedArtist ia s = Some a"
    and "selectedAvailability s \<noteq> []"
    and "plannerName (formState s) = [] \<or> plannerEmail (formState s) = []"
  shows "step ia Submit s
           = s\<lparr> successMessage :=
                  Some ''Please include your name and email so we can follow up.'' \<rparr>
         \<and> successMessage (step ia Submit s) \<noteq> Some (confirmation n sl)
         \<and> formState (step ia Submit s) = formState s
         \<and> selectedAvailability (step ia Submit s) = selectedAvailability s
         \<and> selectedArtistId (step ia Submit s) = selectedArtistId s"
proof -
  have "step ia Submit s = s\<lparr> successMessage := Some contactMessage \<rparr>"
    using assms by (auto simp: step_Submit handleSubmit_def)
  then show ?thesis
    using contactMessage_neq [of n sl] by (simp add: contactMessage_def)
qed

theorem submit_without_contact_witness:
  "selectedArtist roster picked = Some nova \<and> selectedAvailability picked = ''Mar 3''
   \<and> plannerName (formState picked) = []
   \<and> successMessage (step roster Submit picked)
       = Some ''Please include your name and email so we can follow up.''
   \<and> successMessage (step roster Submit picked) \<noteq> Some (confirmation (name nova) ''Mar 3'')
   \<and> formState (step roster Submit picked) = formState picked
   \<and> selectedAvailability (step roster Submit picked) = ''Mar 3''"
proof -
  have h: "selectedAvailability picked \<noteq> []"
    "plannerName (formState picked) = [] \<or> plannerEmail (formState picked) = []"
    by (simp_all add: picked_eq)
  have v: "selectedAvailability picked = ''Mar 3''" "plannerName (formState picked) = []"
    by (simp_all add: picked_eq)
  from submit_without_contact [OF selectedArtist_picked h, of "name nova" "''Mar 3''"]
    v selectedArtist_picked
  show ?thesis by (simp add: confirmation_def)
qed

text \<open>
  C7, as stated, says that every field of the form is checked for being non-empty, so that
  a submission with empty event details does not succeed. It does: in the state \<open>filled\<close>
  an artist and a slot are selected, name and email are given, the event details are
  empty, and submitting produces the confirmation.
\<close>

theorem details_check_counterexample:
  "selectedArtist roster filled = Some nova
   \<and> selectedAvailability filled = ''Mar 3''
   \<and> plannerName (formState filled) = ''Jo''
   \<and> plannerEmail (formState filled) = ''jo@x.io''
   \<and> eventDetails (formState filled) = []
   \<and> successMessage (step roster Submit filled)
       = Some ''Booking inquiry sent for Nova Quartet on Mar 3. Expect a response within 24 hours.''"
  unfolding step_Submit
  by (simp add: handleSubmit_def selectedArtist_filled)
    (simp add: filled_eq confirmation_def nova_def)

text \<open>
  C7, amended. Only the planner's name and email are checked on submission. The status
  message of a submission does not depend on the event details; with an artist and a slot
  selected and name and email non-empty, a submission with empty event details produces
  the confirmation; and with an empty name or an empty email no submission does.
\<close>

theorem details_unchecked:
  "successMessage (step ia Submit (s\<lparr> formState := (formState s)\<lparr> eventDetails := d \<rparr> \<rparr>))
     = successMessage (step ia Submit s)
   \<and> (selectedArtist ia s = Some a \<and> selectedAvailability s \<noteq> []
        \<and> plannerName (formState s) \<noteq> [] \<and> plannerEmail (formState s) \<noteq> []
        \<and> eventDetails (formState s) = []
      \<longrightarrow> successMessage (step ia Submit s)
            = Some (confirmation (name a) (selectedAvailability s)))
   \<and> (plannerName (formState s) = [] \<or> plannerEmail (formState s) = []
      \<longrightarrow> successMessage (step ia Submit s) \<noteq> Some (confirmation n sl))"
proof -
  have a: "successMessage (step ia Submit (s\<lparr> formState := (formState s)\<lparr> eventDetails := d \<rparr> \<rparr>))
     = successMessage (step ia Submit s)"
    unfolding step_Submit
    by (simp add: handleSubmit_def selectedArtist_form split: option.splits)
  have b: "successMessage (step ia Submit s)
            = Some (confirmation (name a) (selectedAvailability s))"
    if "selectedArtist ia s = Some a" "selectedAvailability s \<noteq> []"
      "plannerName (formState s) \<noteq> []" "plannerEmail (formState s) \<noteq> []"
    using that unfolding step_Submit by (simp add: handleSubmit_def)
  have c: "successMessage (step ia Submit s) \<noteq> Some (confirmation n sl)"
    if "plannerName (formState s) = [] \<or> plannerEmail (formState s) = []"
    using that selectMessage_neq [of n sl] contactMessage_neq [of n sl]
    unfolding step_Submit
    by (auto simp: handleSubmit_def split: option.splits)
  from a b c show ?thesis by blast
qed

theorem details_unchecked_witness:
  "selectedArtist roster filled = Some nova \<and> selectedAvailability filled \<noteq> []
   \<and> plannerName (formState filled) \<noteq> [] \<and> plannerEmail (formState filled) \<noteq> []
   \<and> eventDetails (formState filled) = []
   \<and> successMessage (step roster Submit filled) = Some (confirmation (name nova) ''Mar 3'')
   \<and> plannerName (formState picked) = []
   \<and> successMessage (step roster Submit picked) \<noteq> Some (confirmation (name nova) ''Mar 3'')"
proof -
  have h: "selectedAvailability filled \<noteq> []" "plannerName (formState filled) \<noteq> []"
    "plannerEmail (formState filled) \<noteq> []" "eventDetails (formState filled) = []"
    "selectedAvailability filled = ''Mar 3''"
    by (simp_all add: filled_eq)
  have p: "plannerName (formState picked) = []"
    by (simp add: picked_eq)
  from details_unchecked [where ia = roster and s = filled and a = nova]
    details_unchecked [where ia = roster and s = picked and n = "name nova" and sl = "''Mar 3''"]
    h p selectedArtist_filled
  show ?thesis by simp
qed

section \<open>Availability slots\<close>

text \<open>A click on a slot of the booking panel changes none of the effect's dependencies.\<close>

lemma step_PanelSlotClick: "step ia (PanelSlotClick slot) s = handleAvailabilityClick slot s"
  by (simp add: step_def useEffect_def effectDeps_def handleAvailabilityClick_def)

text \<open>
  C8, as stated, says that two clicks on the same slot in succession end with no slot
  chosen, from any starting state. From the state \<open>picked\<close>, where the slot is the chosen
  one, the first click clears it and the second chooses it again.
\<close>

theorem toggle_twice_counterexample:
  "selectedAvailability picked = ''Mar 3''
   \<and> selectedAvailability
        (handleAvailabilityClick ''Mar 3'' (handleAvailabilityClick ''Mar 3'' picked)) = ''Mar 3''
   \<and> selectedAvailability
        (step roster (PanelSlotClick ''Mar 3'') (step roster (PanelSlotClick ''Mar 3'') picked))
       \<noteq> []"
  by (simp add: step_PanelSlotClick handleAvailabilityClick_def picked_eq)

text \<open>
  C8, amended. From a state where the clicked slot is not the chosen one, the first click
  chooses it and the second ends with no slot chosen. From a state where it is the chosen
  one, the first click ends with no slot chosen and the second chooses it again. A click
  in the booking panel does exactly this.
\<close>

theorem toggle_twice:
  "(selectedAvailability s \<noteq> slot \<longrightarrow>
      selectedAvailability (handleAvailabilityClick slot s) = slot
      \<and> selectedAvailability (handleAvailabilityClick slot (handleAvailabilityClick slot s)) = [])
   \<and> (selectedAvailability s = slot \<longrightarrow>
        selectedAvailability (handleAvailabilityClick slot s) = []
        \<and> selectedAvailability (handleAvailabilityClick slot (handleAvailabilityClick slot s))
            = slot)
   \<and> step ia (PanelSlotClick slot) s = handleAvailabilityClick slot s"
  by (simp add: step_PanelSlotClick) (simp add: handleAvailabilityClick_def)

theorem toggle_twice_witness:
  "selectedAvailability (mount roster) \<noteq> ''Mar 3''
   \<and> selectedAvailability
        (handleAvailabilityClick ''Mar 3'' (handleAvailabilityClick ''Mar 3'' (mount roster))) = []
   \<and> selectedAvailability picked = ''Mar 3''
   \<and> selectedAvailability (handleAvailabilityClick ''Mar 3'' picked) = []
   \<and> selectedAvailability
        (handleAvailabilityClick ''Mar 3'' (handleAvailabilityClick ''Mar 3'' picked)) = ''Mar 3''"
proof -
  have a: "selectedAvailability (mount roster) \<noteq> ''Mar 3''"
    by (simp add: mount_roster)
  have b: "selectedAvailability picked = ''Mar 3''"
    by (simp add: picked_eq)
  from toggle_twice [where s = "mount roster" and slot = "''Mar 3''"]
    toggle_twice [where s = picked and slot = "''Mar 3''"] a b
  show ?thesis by simp
qed

lemma handle_CardSlotClick:
  "handle ia (CardSlotClick artistId slot) s =
     s\<lparr> selectedArtistId := artistId, selectedAvailability := slot, successMessage := None \<rparr>"
  by (simp add: handleBookClick_def handleAvailabilityClick_def)

lemma filteredArtists_selection:
  "filteredArtists ia (s\<lparr> selectedArtistId := x, selectedAvailability := y, successMessage := z \<rparr>)
     = filteredArtists ia s"
  by (simp add: filteredArtists_def)

lemma step_CardSlotClick:
  assumes "a \<in> set (filteredArtists ia s)"
  shows "step ia (CardSlotClick (id_artist a) slot) s =
     s\<lparr> selectedArtistId := id_artist a, selectedAvailability := slot, successMessage := None \<rparr>"
proof -
  let ?s1 = "s\<lparr> selectedArtistId := id_artist a, selectedAvailability := slot,
                successMessage := None \<rparr>"
  have "selectedArtistId ?s1 \<in> id_artist ` set (filteredArtists ia ?s1)"
    using assms unfolding filteredArtists_selection by simp
  then have "reconcile (filteredArtists ia ?s1) ?s1 = ?s1"
    by (rule reconcile_visible)
  then show ?thesis
    unfolding step_def handle_CardSlotClick useEffect_def by simp
qed

text \<open>
  C9. A click on a slot of an artist card runs \<open>handleBookClick\<close> and then
  \<open>handleAvailabilityClick\<close>: the first clears the chosen slot, so the second always
  chooses the clicked one, whatever was chosen before. For a card that is on the page (its
  artist is in the filtered list) the effect keeps this, and the artist of the card is the
  selected one. The same slot clicked in the booking panel while it is the chosen one is
  cleared: toggling off happens there only.
\<close>

theorem card_slot_click:
  "selectedAvailability (handle ia (CardSlotClick artistId slot) s) = slot
   \<and> (a \<in> set (filteredArtists ia s) \<longrightarrow>
        selectedAvailability (step ia (CardSlotClick (id_artist a) slot) s) = slot
        \<and> selectedArtistId (step ia (CardSlotClick (id_artist a) slot) s) = id_artist a)
   \<and> (selectedAvailability s = slot \<longrightarrow>
        selectedAvailability (step ia (PanelSlotClick slot) s) = [])"
proof -
  have "selectedAvailability (handle ia (CardSlotClick artistId slot) s) = slot"
    unfolding handle_CardSlotClick by simp
  moreover have "selectedAvailability (step ia (CardSlotClick (id_artist a) slot) s) = slot
        \<and> selectedArtistId (step ia (CardSlotClick (id_artist a) slot) s) = id_artist a"
    if "a \<in> set (filteredArtists ia s)"
    by (simp add: step_CardSlotClick [OF that])
  moreover have "selectedAvailability (step ia (PanelSlotClick slot) s) = []"
    if "selectedAvailability s = slot"
    using that by (simp add: step_PanelSlotClick handleAvailabilityClick_def)
  ultimately show ?thesis by blast
qed

theorem card_slot_click_witness:
  "nova \<in> set (filteredArtists roster picked)
   \<and> selectedArtistId picked = id_artist nova \<and> selectedAvailability picked = ''Mar 3''
   \<and> selectedAvailability (step roster (CardSlotClick (id_artist nova) ''Mar 3'') picked) = ''Mar 3''
   \<and> selectedArtistId (step roster (CardSlotClick (id_artist nova) ''Mar 3'') picked) = id_artist nova
   \<and> selectedAvailability (step roster (PanelSlotClick ''Mar 3'') picked) = []"
proof -
  have a: "nova \<in> set (filteredArtists roster picked)"
    by (simp add: picked_eq filteredArtists_def filter_defs sample_defs)
  have b: "selectedArtistId picked = id_artist nova" "selectedAvailability picked = ''Mar 3''"
    by (simp_all add: picked_eq nova_def)
  from card_slot_click [where ia = roster and s = picked and a = nova and slot = "''Mar 3''"] a b
  show ?thesis by simp
qed

end
